theory Spec2Isabelle
  imports Complex_Main
begin

section \<open>Values, errors and documents\<close>

text \<open>
  The program is JavaScript running as Azure Functions over a MongoDB store. Messages
  and request bodies are parsed JSON, so they are modelled as JavaScript values. Numbers
  are only carried from the message into the store and into the e-mail text; the
  modelled code never computes with them.
\<close>

datatype jsval =
    Undefined
  | Null
  | Bool bool
  | Num real
  | Str string
  | Arr "jsval list"
  | Obj "(string \<times> jsval) list"

text \<open>A thrown JavaScript exception: an \<open>Error\<close> with its message, or a \<open>TypeError\<close>.\<close>

datatype error = Error string | TypeError string

type_synonym 'a result = "error + 'a"

text \<open>\<open>new Date()\<close>: a reading of the server clock.\<close>

type_synonym date = nat

text \<open>Truthiness of a value, as \<open>if (x)\<close> and \<open>x || d\<close> test it.\<close>

fun truthy :: "jsval \<Rightarrow> bool" where
  "truthy Undefined = False"
| "truthy Null = False"
| "truthy (Bool b) = b"
| "truthy (Num n) = (n \<noteq> 0)"
| "truthy (Str s) = (s \<noteq> [])"
| "truthy (Arr xs) = True"
| "truthy (Obj kvs) = True"

text \<open>
  Property access \<open>v.k\<close> for the property names this program reads (none of them is a
  built-in property): reading from \<open>undefined\<close> or \<open>null\<close> throws a TypeError, a missing
  property is \<open>undefined\<close>.
\<close>

fun getField :: "jsval \<Rightarrow> string \<Rightarrow> jsval result" where
  "getField Undefined k = Inl (TypeError ''Cannot read properties of undefined'')"
| "getField Null k = Inl (TypeError ''Cannot read properties of null'')"
| "getField (Obj kvs) k = Inr (case map_of kvs k of None \<Rightarrow> Undefined | Some v \<Rightarrow> v)"
| "getField (Bool b) k = Inr Undefined"
| "getField (Num n) k = Inr Undefined"
| "getField (Str s) k = Inr Undefined"
| "getField (Arr xs) k = Inr Undefined"

text \<open>A document of the \<open>userVehicles\<close> collection.\<close>

record vehicle =
  vid :: jsval
  email :: jsval

text \<open>The object the consumer hands to \<open>storeViolation\<close>, and the document that
  \<open>storeViolation\<close> inserts (the driver adds an \<open>_id\<close> of its own, which the program
  never reads). \<open>warningSentAt\<close> is absent until the scanner sets it.\<close>

record violationData =
  vehicleId :: jsval
  email :: jsval
  latitude :: jsval
  longitude :: jsval
  timestamp :: jsval

record violation = violationData +
  violationId :: string
  warningSent :: bool
  created :: date
  warningSentAt :: "date option"

section \<open>The outside world and the process state\<close>

text \<open>
  What the platform and the external services answer during one invocation: the
  environment variables (\<open>None\<close>: not set; an empty string is falsy too, so
  \<open>!connectionString\<close> holds for both), whether each driver call fails (\<open>None\<close>: it succeeds), what the
  ownership collection answers to \<open>findOne({ vid: v })\<close>, the UUID drawn by
  \<open>randomUUID()\<close> and the clock. The clock is read anew for every document that is
  written: \<open>now w vId\<close> is what \<open>new Date()\<close> returns when the document with
  \<open>violationId\<close> \<open>vId\<close> is created or marked. A failed store call leaves the store as
  it was.
  \<open>updateOneFault\<close> is asked per \<open>violationId\<close> and \<open>beginSendFault\<close> per violation
  (it covers \<open>beginSend\<close> and \<open>pollUntilDone\<close>); \<open>countDocumentsFault\<close> is asked per
  call of the purge run, numbered in the order of the source (0: all documents before,
  1: the processed ones, 2: all documents after).
\<close>

record world =
  MONGODB_CONNECTION_STRING :: "string option"
  COMMUNICATION_SERVICES_CONNECTION_STRING :: "string option"
  newMongoClientFault :: "string \<Rightarrow> error option"
  connectFault :: "error option"
  pingFault :: "error option"
  findOneAnswer :: "jsval \<Rightarrow> vehicle option result"
  insertOneFault :: "error option"
  findFault :: "error option"
  updateOneFault :: "string \<Rightarrow> error option"
  countDocumentsFault :: "nat \<Rightarrow> error option"
  deleteManyFault :: "error option"
  closeFault :: "error option"
  newEmailClientFault :: "string \<Rightarrow> error option"
  beginSendFault :: "violation \<Rightarrow> error option"
  randomUUID :: string
  now :: "string \<Rightarrow> date"

text \<open>
  The module-level singletons (\<open>client\<close>/\<open>mongoClient\<close>, \<open>database\<close>, \<open>emailClient\<close>; a
  client is represented by the connection string it was built from) together with the
  contents of the \<open>violations\<close> collection.
\<close>

record state =
  mongoClient :: "string option"
  database :: "string option"
  emailClient :: "string option"
  violations :: "violation list"

section \<open>StoreViolationService.js\<close>

definition defaultConnectionString :: string where
  "defaultConnectionString =
     ''mongodb://cst8917comosfinal:7i8YB2uwmMu1N3t7B9BUyxsrpOsMDE9z4P3xi1gcGGtkEK2ByRW2wAFfAyUcHN0yMAdQSBwKkgduACDbMkCm2w==@cst8917comosfinal.mongo.cosmos.azure.com:10255/?ssl=true&replicaSet=globaldb&retrywrites=false&maxIdleTimeMS=120000&appName=@cst8917comosfinal@''"

text \<open>\<open>getMongoClient\<close> of the service: a missing connection string falls back to the
  built-in one; the client is assigned before \<open>connect()\<close> is awaited.\<close>

definition getMongoClient_service :: "world \<Rightarrow> state \<Rightarrow> unit result \<times> state" where
  "getMongoClient_service w s =
     (if mongoClient s = None then
        (let connectionString =
               (case MONGODB_CONNECTION_STRING w of
                  None \<Rightarrow> defaultConnectionString
                | Some cs \<Rightarrow> if cs = [] then defaultConnectionString else cs)
         in case newMongoClientFault w connectionString of
              Some err \<Rightarrow> (Inl err, s)
            | None \<Rightarrow>
                (let s1 = s\<lparr>mongoClient := Some connectionString\<rparr>
                 in case connectFault w of
                      Some err \<Rightarrow> (Inl err, s1)
                    | None \<Rightarrow> (Inr (), s1\<lparr>database := Some ''geofence''\<rparr>)))
      else (Inr (), s))"

definition findVehicleUser :: "world \<Rightarrow> state \<Rightarrow> jsval \<Rightarrow> vehicle option result \<times> state" where
  "findVehicleUser w s vehicleId' =
     (case getMongoClient_service w s of
        (Inl error, s1) \<Rightarrow> (Inl error, s1)
      | (Inr _, s1) \<Rightarrow>
          (case (if database s1 = None then
                   (case getMongoClient_service w (s1\<lparr>mongoClient := None\<rparr>) of
                      (Inl error, s2) \<Rightarrow> (Inl error, s2)
                    | (Inr _, s2) \<Rightarrow>
                        (if database s2 = None
                         then (Inl (Error ''Failed to initialize database connection''), s2)
                         else (Inr (), s2)))
                 else (Inr (), s1)) of
             (Inl error, s2) \<Rightarrow> (Inl error, s2)
           | (Inr _, s2) \<Rightarrow>
               (case findOneAnswer w vehicleId' of
                  Inl error \<Rightarrow> (Inl error, s2)
                | Inr vehicle \<Rightarrow> (Inr vehicle, s2))))"

definition storeViolation :: "world \<Rightarrow> state \<Rightarrow> violationData \<Rightarrow> unit result \<times> state" where
  "storeViolation w s violationData =
     (case getMongoClient_service w s of
        (Inl error, s1) \<Rightarrow> (Inl error, s1)
      | (Inr _, s1) \<Rightarrow>
          (case database s1 of
             None \<Rightarrow> (Inl (TypeError ''Cannot read properties of null''), s1)
           | Some _ \<Rightarrow>
               (let violationId' = randomUUID w
                in case insertOneFault w of
                     Some error \<Rightarrow> (Inl error, s1)
                   | None \<Rightarrow>
                       (Inr (),
                        s1\<lparr>violations := violations s1 @
                             [\<lparr>vehicleId = vehicleId violationData,
                               email = violationData.email violationData,
                               latitude = latitude violationData,
                               longitude = longitude violationData,
                               timestamp = timestamp violationData,
                               violationId = violationId',
                               warningSent = False,
                               created = now w violationId',
                               warningSentAt = None\<rparr>]\<rparr>))))"

section \<open>ProcessGpsData.js\<close>

text \<open>The four properties the handler destructures from the message, in the source's
  order.\<close>

definition destructure :: "jsval \<Rightarrow> (jsval \<times> jsval \<times> jsval \<times> jsval) result" where
  "destructure message =
     (case getField message ''timestamp'' of
        Inl e \<Rightarrow> Inl e
      | Inr timestamp' \<Rightarrow>
          (case getField message ''vehicleId'' of
             Inl e \<Rightarrow> Inl e
           | Inr vehicleId' \<Rightarrow>
               (case getField message ''latitude'' of
                  Inl e \<Rightarrow> Inl e
                | Inr latitude' \<Rightarrow>
                    (case getField message ''longitude'' of
                       Inl e \<Rightarrow> Inl e
                     | Inr longitude' \<Rightarrow> Inr (timestamp', vehicleId', latitude', longitude')))))"

text \<open>How an invocation that returns normally ended; each constructor stands for the
  log line only that path writes.\<close>

datatype ingestion =
    Inside
  | Stored
  | NoOwner
  | DatabaseOperationFailed error

text \<open>
  The handler of \<open>processGpsData\<close>. \<open>GeofenceService.isWithinGeofence\<close> is not part of
  the sources at hand; it is the parameter \<open>isWithinGeofence\<close>, taking longitude and
  latitude and answering or throwing. \<open>Inl\<close> is an error thrown to the Functions runtime
  (which then redelivers the message); an error of the store is caught by the inner
  \<open>catch (dbError)\<close>, which logs it and does not rethrow.
\<close>

definition processGpsData ::
  "(jsval \<Rightarrow> jsval \<Rightarrow> bool result) \<Rightarrow> world \<Rightarrow> state \<Rightarrow> jsval \<Rightarrow> ingestion result \<times> state" where
  "processGpsData isWithinGeofence w s message =
     (case destructure message of
        Inl error \<Rightarrow> (Inl error, s)
      | Inr (timestamp', vehicleId', latitude', longitude') \<Rightarrow>
          (case isWithinGeofence longitude' latitude' of
             Inl error \<Rightarrow> (Inl error, s)
           | Inr isInside \<Rightarrow>
               (if isInside then (Inr Inside, s)
                else
                  (case findVehicleUser w s vehicleId' of
                     (Inl dbError, s1) \<Rightarrow> (Inr (DatabaseOperationFailed dbError), s1)
                   | (Inr None, s1) \<Rightarrow> (Inr NoOwner, s1)
                   | (Inr (Some vehicleRecord), s1) \<Rightarrow>
                       (case storeViolation w s1
                               \<lparr>vehicleId = vehicleId',
                                email = vehicle.email vehicleRecord,
                                latitude = latitude',
                                longitude = longitude',
                                timestamp = timestamp'\<rparr> of
                          (Inl dbError, s2) \<Rightarrow> (Inr (DatabaseOperationFailed dbError), s2)
                        | (Inr _, s2) \<Rightarrow> (Inr Stored, s2))))))"

section \<open>The store's collection operations\<close>

text \<open>
  The MongoDB driver calls the program makes on the \<open>violations\<close> collection, with the
  filters it passes: \<open>find(filter).toArray()\<close>, \<open>countDocuments(filter)\<close>,
  \<open>deleteMany(filter)\<close> with its \<open>deletedCount\<close>, and
  \<open>updateOne({ violationId: id }, { $set: { warningSent: true, warningSentAt: d } })\<close>,
  which updates the first document with that \<open>violationId\<close>, whatever its \<open>warningSent\<close>,
  and reports \<open>matchedCount\<close> and \<open>modifiedCount\<close> (a document that already holds the
  values that are set is matched and not modified).
\<close>

definition countDocuments :: "(violation \<Rightarrow> bool) \<Rightarrow> violation list \<Rightarrow> nat" where
  "countDocuments flt docs = length (filter flt docs)"

definition deleteMany :: "(violation \<Rightarrow> bool) \<Rightarrow> violation list \<Rightarrow> nat \<times> violation list" where
  "deleteMany flt docs = (length (filter flt docs), filter (\<lambda>d. \<not> flt d) docs)"

record updateResult =
  matchedCount :: nat
  modifiedCount :: nat

definition setWarned :: "date \<Rightarrow> violation \<Rightarrow> violation" where
  "setWarned d doc = doc\<lparr>warningSent := True, warningSentAt := Some d\<rparr>"

fun updateOne :: "string \<Rightarrow> date \<Rightarrow> violation list \<Rightarrow> updateResult \<times> violation list" where
  "updateOne vId d [] = (\<lparr>matchedCount = 0, modifiedCount = 0\<rparr>, [])"
| "updateOne vId d (doc # docs) =
     (if violationId doc = vId
      then (\<lparr>matchedCount = 1, modifiedCount = (if setWarned d doc = doc then 0 else 1)\<rparr>,
            setWarned d doc # docs)
      else (case updateOne vId d docs of (r, docs') \<Rightarrow> (r, doc # docs')))"

section \<open>The notification scanner (scanViolations)\<close>

definition getMongoClient_scanner :: "world \<Rightarrow> state \<Rightarrow> unit result \<times> state" where
  "getMongoClient_scanner w s =
     (if mongoClient s = None then
        (case MONGODB_CONNECTION_STRING w of
           None \<Rightarrow>
             (Inl (Error ''MONGODB_CONNECTION_STRING environment variable is not configured''), s)
         | Some connectionString \<Rightarrow>
             (if connectionString = []
              then (Inl (Error ''MONGODB_CONNECTION_STRING environment variable is not configured''), s)
              else
                (case newMongoClientFault w connectionString of
                   Some err \<Rightarrow> (Inl err, s)
                 | None \<Rightarrow>
                     (let s1 = s\<lparr>mongoClient := Some connectionString\<rparr>
                      in case connectFault w of
                           Some err \<Rightarrow> (Inl err, s1)
                         | None \<Rightarrow> (Inr (), s1\<lparr>database := Some ''geofence''\<rparr>)))))
      else (Inr (), s))"

definition getEmailClient :: "world \<Rightarrow> state \<Rightarrow> unit result \<times> state" where
  "getEmailClient w s =
     (if emailClient s = None then
        (case COMMUNICATION_SERVICES_CONNECTION_STRING w of
           None \<Rightarrow>
             (Inl (Error ''COMMUNICATION_SERVICES_CONNECTION_STRING environment variable is not configured''), s)
         | Some connectionString \<Rightarrow>
             (if connectionString = []
              then (Inl (Error ''COMMUNICATION_SERVICES_CONNECTION_STRING environment variable is not configured''), s)
              else
                (case newEmailClientFault w connectionString of
                   Some err \<Rightarrow> (Inl err, s)
                 | None \<Rightarrow> (Inr (), s\<lparr>emailClient := Some connectionString\<rparr>))))
      else (Inr (), s))"

text \<open>\<open>x.toFixed(6)\<close> in the e-mail body: only a number has the method.\<close>

fun toFixed :: "jsval \<Rightarrow> unit result" where
  "toFixed (Num n) = Inr ()"
| "toFixed Undefined = Inl (TypeError ''Cannot read properties of undefined'')"
| "toFixed Null = Inl (TypeError ''Cannot read properties of null'')"
| "toFixed (Bool b) = Inl (TypeError ''toFixed is not a function'')"
| "toFixed (Str s) = Inl (TypeError ''toFixed is not a function'')"
| "toFixed (Arr xs) = Inl (TypeError ''toFixed is not a function'')"
| "toFixed (Obj kvs) = Inl (TypeError ''toFixed is not a function'')"

definition sendViolationEmail :: "world \<Rightarrow> state \<Rightarrow> violation \<Rightarrow> unit result \<times> state" where
  "sendViolationEmail w s violation =
     (case getEmailClient w s of
        (Inl error, s1) \<Rightarrow> (Inl error, s1)
      | (Inr _, s1) \<Rightarrow>
          (case toFixed (latitude violation) of
             Inl error \<Rightarrow> (Inl error, s1)
           | Inr _ \<Rightarrow>
               (case toFixed (longitude violation) of
                  Inl error \<Rightarrow> (Inl error, s1)
                | Inr _ \<Rightarrow>
                    (case beginSendFault w violation of
                       Some error \<Rightarrow> (Inl error, s1)
                     | None \<Rightarrow> (Inr (), s1)))))"

definition markViolationAsWarned :: "world \<Rightarrow> state \<Rightarrow> string \<Rightarrow> updateResult result \<times> state" where
  "markViolationAsWarned w s violationId' =
     (case getMongoClient_scanner w s of
        (Inl error, s1) \<Rightarrow> (Inl error, s1)
      | (Inr _, s1) \<Rightarrow>
          (case database s1 of
             None \<Rightarrow> (Inl (TypeError ''Cannot read properties of null''), s1)
           | Some _ \<Rightarrow>
               (case updateOneFault w violationId' of
                  Some error \<Rightarrow> (Inl error, s1)
                | None \<Rightarrow>
                    (case updateOne violationId' (now w violationId') (violations s1) of
                       (result, docs) \<Rightarrow> (Inr result, s1\<lparr>violations := docs\<rparr>)))))"

definition getUnsentViolations :: "world \<Rightarrow> state \<Rightarrow> violation list result \<times> state" where
  "getUnsentViolations w s =
     (case getMongoClient_scanner w s of
        (Inl error, s1) \<Rightarrow> (Inl error, s1)
      | (Inr _, s1) \<Rightarrow>
          (case database s1 of
             None \<Rightarrow> (Inl (TypeError ''Cannot read properties of null''), s1)
           | Some _ \<Rightarrow>
               (case findFault w of
                  Some error \<Rightarrow> (Inl error, s1)
                | None \<Rightarrow> (Inr (filter (\<lambda>d. warningSent d = False) (violations s1)), s1))))"

definition cleanupResources_scanner :: "world \<Rightarrow> state \<Rightarrow> unit result \<times> state" where
  "cleanupResources_scanner w s =
     (if mongoClient s \<noteq> None then
        (case closeFault w of
           Some error \<Rightarrow> (Inl error, s)
         | None \<Rightarrow> (Inr (), s\<lparr>mongoClient := None, database := None\<rparr>))
      else (Inr (), s))"

text \<open>The \<open>for (const violation of violations)\<close> loop with its two counters: the
  \<open>catch\<close> inside the loop counts the failure and continues.\<close>

fun processViolations :: "world \<Rightarrow> violation list \<Rightarrow> nat \<Rightarrow> nat \<Rightarrow> state \<Rightarrow> nat \<times> nat \<times> state" where
  "processViolations w [] successCount failCount s = (successCount, failCount, s)"
| "processViolations w (violation # rest) successCount failCount s =
     (case sendViolationEmail w s violation of
        (Inl error, s1) \<Rightarrow> processViolations w rest successCount (failCount + 1) s1
      | (Inr _, s1) \<Rightarrow>
          (case markViolationAsWarned w s1 (violationId violation) of
             (Inl error, s2) \<Rightarrow> processViolations w rest successCount (failCount + 1) s2
           | (Inr _, s2) \<Rightarrow> processViolations w rest (successCount + 1) failCount s2))"

text \<open>What a scanner run logged last inside its \<open>try\<close>: that there was nothing to do,
  or the success and failure counts.\<close>

datatype scan_report = NoNewViolations | Completed nat nat

text \<open>The handler of \<open>scanViolations\<close>: whether it throws to the runtime or returns, the
  report it logged (if it got that far), and the state. The \<open>finally\<close> block runs after
  the report is logged; an error of \<open>close()\<close> there is what the invocation throws.\<close>

definition scanViolations :: "world \<Rightarrow> state \<Rightarrow> unit result \<times> scan_report option \<times> state" where
  "scanViolations w s =
     (case (case getUnsentViolations w s of
              (Inl error, s1) \<Rightarrow> (Inl error, None, s1)
            | (Inr unsent, s1) \<Rightarrow>
                (if length unsent = 0 then (Inr (), Some NoNewViolations, s1)
                 else
                   (case processViolations w unsent 0 0 s1 of
                      (successCount, failCount, s2) \<Rightarrow>
                        (Inr (), Some (Completed successCount failCount), s2)))) of
        (outcome, report, s3) \<Rightarrow>
          (case cleanupResources_scanner w s3 of
             (Inl error, s4) \<Rightarrow> (Inl error, report, s4)
           | (Inr _, s4) \<Rightarrow> (outcome, report, s4)))"

section \<open>purgeData.js\<close>

definition getMongoClient_purge :: "world \<Rightarrow> state \<Rightarrow> unit result \<times> state" where
  "getMongoClient_purge w s =
     (if mongoClient s \<noteq> None \<and> database s \<noteq> None then (Inr (), s)
      else
        (case MONGODB_CONNECTION_STRING w of
           None \<Rightarrow>
             (Inl (Error ''MONGODB_CONNECTION_STRING environment variable is not configured''), s)
         | Some connectionString \<Rightarrow>
             (if connectionString = []
              then (Inl (Error ''MONGODB_CONNECTION_STRING environment variable is not configured''), s)
              else
                (case newMongoClientFault w connectionString of
                   Some err \<Rightarrow> (Inl err, s)
                 | None \<Rightarrow>
                     (let s1 = s\<lparr>mongoClient := Some connectionString\<rparr>
                      in case connectFault w of
                           Some err \<Rightarrow> (Inl err, s1)
                         | None \<Rightarrow>
                             (case pingFault w of
                                Some err \<Rightarrow> (Inl err, s1)
                              | None \<Rightarrow> (Inr (), s1\<lparr>database := Some ''geofence''\<rparr>)))))))"

text \<open>\<open>purgeProcessedViolations\<close> returns the \<open>deletedCount\<close>.\<close>

definition purgeProcessedViolations :: "world \<Rightarrow> state \<Rightarrow> nat result \<times> state" where
  "purgeProcessedViolations w s =
     (case getMongoClient_purge w s of
        (Inl error, s1) \<Rightarrow> (Inl error, s1)
      | (Inr _, s1) \<Rightarrow>
          (if database s1 = None then (Inl (Error ''Database connection not initialized''), s1)
           else
             (case countDocumentsFault w 1 of
                Some error \<Rightarrow> (Inl error, s1)
              | None \<Rightarrow>
                  (let countBefore = countDocuments (\<lambda>d. warningSent d = True) (violations s1)
                   in if countBefore = 0 then (Inr 0, s1)
                      else
                        (case deleteManyFault w of
                           Some error \<Rightarrow> (Inl error, s1)
                         | None \<Rightarrow>
                             (case deleteMany (\<lambda>d. warningSent d = True) (violations s1) of
                                (deletedCount, docs) \<Rightarrow>
                                  (Inr deletedCount, s1\<lparr>violations := docs\<rparr>)))))))"

text \<open>\<open>cleanupResources\<close> of the purge module catches an error of \<open>close()\<close> and resets
  the singletons in its \<open>finally\<close>.\<close>

definition cleanupResources_purge :: "state \<Rightarrow> state" where
  "cleanupResources_purge s =
     (if mongoClient s \<noteq> None then s\<lparr>mongoClient := None, database := None\<rparr> else s)"

text \<open>The metrics a purge run logs before it returns (the elapsed time is left out).\<close>

record purge_report =
  violationsCountBefore :: nat
  violationsCountAfter :: nat
  purgedCount :: nat

definition purgeHandler :: "world \<Rightarrow> state \<Rightarrow> purge_report result \<times> state" where
  "purgeHandler w s =
     (case (case getMongoClient_purge w s of
              (Inl error, s1) \<Rightarrow> (Inl error, s1)
            | (Inr _, s1) \<Rightarrow>
                (case database s1 of
                   None \<Rightarrow> (Inl (TypeError ''Cannot read properties of null''), s1)
                 | Some _ \<Rightarrow>
                     (case countDocumentsFault w 0 of
                        Some error \<Rightarrow> (Inl error, s1)
                      | None \<Rightarrow>
                          (let countBeforePurge = countDocuments (\<lambda>d. True) (violations s1)
                           in case purgeProcessedViolations w s1 of
                                (Inl error, s2) \<Rightarrow> (Inl error, s2)
                              | (Inr deletedCount, s2) \<Rightarrow>
                                  (case database s2 of
                                     None \<Rightarrow> (Inl (TypeError ''Cannot read properties of null''), s2)
                                   | Some _ \<Rightarrow>
                                       (case countDocumentsFault w 2 of
                                          Some error \<Rightarrow> (Inl error, s2)
                                        | None \<Rightarrow>
                                            (Inr \<lparr>violationsCountBefore = countBeforePurge,
                                                  violationsCountAfter =
                                                    countDocuments (\<lambda>d. True) (violations s2),
                                                  purgedCount = deletedCount\<rparr>, s2))))))) of
        (outcome, s3) \<Rightarrow> (outcome, cleanupResources_purge s3))"

section \<open>GenerateGpsData.js\<close>

text \<open>
  What the platform answers during one request to the generator: the environment, what
  \<open>JSON.parse\<close> makes of a body, whether \<open>context.log.warn\<close> and the Service Bus calls
  throw, and the values drawn in this request: the array that
  \<open>generateRandomPointsInRadius\<close> returns for its four arguments (it is floating-point
  trigonometry over \<open>Math.random()\<close>, and only its result is carried into the message),
  the ISO timestamp and the random four-digit vehicle id.
\<close>

record gen_world =
  SERVICE_BUS_CONNECTION_STRING :: "string option"
  SERVICE_BUS_QUEUE_NAME :: "string option"
  JSON_parse :: "string \<Rightarrow> jsval result"
  logWarnFault :: "error option"
  newServiceBusClientFault :: "string \<Rightarrow> error option"
  createSenderFault :: "string \<Rightarrow> error option"
  sendMessagesFault :: "error option"
  generateRandomPointsInRadius :: "jsval \<Rightarrow> jsval \<Rightarrow> jsval \<Rightarrow> jsval \<Rightarrow> jsval"
  toISOString :: string
  randomVehicleId :: string

text \<open>The generator's singletons (the sender is represented by its queue name) and the
  message bodies sent to the queue so far.\<close>

record gen_state =
  serviceBusClientInstance :: "string option"
  serviceBusSenderInstance :: "string option"
  queue :: "jsval list"

text \<open>The HTTP response: status 200 with the message as \<open>data\<close>, or status 500 with the
  error text.\<close>

datatype http_response = Response200 jsval | Response500 string

fun errorMessage :: "error \<Rightarrow> string" where
  "errorMessage (Error m) = m"
| "errorMessage (TypeError m) = m"

text \<open>\<open>a || b\<close>\<close>

definition orElse :: "jsval \<Rightarrow> jsval \<Rightarrow> jsval" where
  "orElse a b = (if truthy a then a else b)"

definition getServiceBusClient :: "gen_world \<Rightarrow> gen_state \<Rightarrow> unit result \<times> gen_state" where
  "getServiceBusClient w g =
     (if serviceBusClientInstance g = None then
        (case SERVICE_BUS_CONNECTION_STRING w of
           None \<Rightarrow>
             (Inl (Error ''SERVICE_BUS_CONNECTION_STRING environment variable is not configured''), g)
         | Some connectionString \<Rightarrow>
             (if connectionString = []
              then (Inl (Error ''SERVICE_BUS_CONNECTION_STRING environment variable is not configured''), g)
              else
                (case newServiceBusClientFault w connectionString of
                   Some err \<Rightarrow> (Inl err, g)
                 | None \<Rightarrow> (Inr (), g\<lparr>serviceBusClientInstance := Some connectionString\<rparr>))))
      else (Inr (), g))"

definition getServiceBusSender :: "gen_world \<Rightarrow> gen_state \<Rightarrow> string \<Rightarrow> unit result \<times> gen_state" where
  "getServiceBusSender w g queueName =
     (if serviceBusSenderInstance g = None then
        (case getServiceBusClient w g of
           (Inl err, g1) \<Rightarrow> (Inl err, g1)
         | (Inr _, g1) \<Rightarrow>
             (case createSenderFault w queueName of
                Some err \<Rightarrow> (Inl err, g1)
              | None \<Rightarrow> (Inr (), g1\<lparr>serviceBusSenderInstance := Some queueName\<rparr>)))
      else (Inr (), g))"

text \<open>The request body as parsed: \<open>request\<close> is what \<open>await request.text()\<close> yields; a
  failure to read or parse is caught and logged with \<open>context.log.warn\<close>, leaving the
  empty object.\<close>

definition parseRequestData :: "gen_world \<Rightarrow> string result \<Rightarrow> jsval result" where
  "parseRequestData w request =
     (case (case request of
              Inl parseError \<Rightarrow> Inl parseError
            | Inr requestBody \<Rightarrow>
                (if requestBody \<noteq> [] then JSON_parse w requestBody else Inr (Obj []))) of
        Inl parseError \<Rightarrow>
          (case logWarnFault w of Some err \<Rightarrow> Inl err | None \<Rightarrow> Inr (Obj []))
      | Inr requestData \<Rightarrow> Inr requestData)"

text \<open>The message the handler builds.\<close>

definition gpsMessage :: "gen_world \<Rightarrow> jsval \<Rightarrow> jsval \<Rightarrow> jsval \<Rightarrow> jsval \<Rightarrow> jsval" where
  "gpsMessage w centerLat centerLng radiusKm gpsPoints =
     Obj [(''timestamp'', Str (toISOString w)),
          (''vehicleId'', Str (randomVehicleId w)),
          (''center'', Obj [(''latitude'', centerLat), (''longitude'', centerLng)]),
          (''radiusKm'', radiusKm),
          (''points'', gpsPoints)]"

definition generateGpsPoints ::
  "gen_world \<Rightarrow> gen_state \<Rightarrow> string result \<Rightarrow> http_response \<times> gen_state" where
  "generateGpsPoints w g request =
     (case (case parseRequestData w request of
              Inl error \<Rightarrow> (Inl error, g)
            | Inr requestData \<Rightarrow>
                (case getField requestData ''latitude'' of
                   Inl error \<Rightarrow> (Inl error, g)
                 | Inr lat \<Rightarrow>
                 (case getField requestData ''longitude'' of
                   Inl error \<Rightarrow> (Inl error, g)
                 | Inr lng \<Rightarrow>
                 (case getField requestData ''radiusKm'' of
                   Inl error \<Rightarrow> (Inl error, g)
                 | Inr rad \<Rightarrow>
                 (case getField requestData ''pointCount'' of
                   Inl error \<Rightarrow> (Inl error, g)
                 | Inr cnt \<Rightarrow>
                     (let centerLat = orElse lat (Num 45.39574634172982);
                          centerLng = orElse lng (Num (-75.74740191869692));
                          radiusKm = orElse rad (Num 20);
                          pointCount = orElse cnt (Num 100);
                          gpsPoints = generateRandomPointsInRadius w centerLat centerLng radiusKm pointCount;
                          queueName = (case SERVICE_BUS_QUEUE_NAME w of
                                         None \<Rightarrow> ''gps''
                                       | Some q \<Rightarrow> if q = [] then ''gps'' else q)
                      in case (case getServiceBusSender w g queueName of
                                 (Inl sbError, g1) \<Rightarrow> (Inl sbError, g1)
                               | (Inr _, g1) \<Rightarrow>
                                   (let message = gpsMessage w centerLat centerLng radiusKm gpsPoints
                                    in case sendMessagesFault w of
                                         Some sbError \<Rightarrow> (Inl sbError, g1)
                                       | None \<Rightarrow> (Inr message, g1\<lparr>queue := queue g1 @ [message]\<rparr>))) of
                           (Inl sbError, g2) \<Rightarrow>
                             (Inl (Error (''Service Bus error: '' @ errorMessage sbError)), g2)
                         | (Inr message, g2) \<Rightarrow> (Inr message, g2))))))) of
        (Inl error, g3) \<Rightarrow> (Response500 (''Failed to process request: '' @ errorMessage error), g3)
      | (Inr message, g3) \<Rightarrow> (Response200 message, g3))"

section \<open>Notions used to state the properties\<close>



text \<open>The purge run can reach the store: a connection is cached or can be opened, and
  none of its three counts nor its delete fails.\<close>

definition purgeStoreReachable :: "world \<Rightarrow> state \<Rightarrow> bool" where
  "purgeStoreReachable w s =
     (((mongoClient s \<noteq> None \<and> database s \<noteq> None)
       \<or> (case MONGODB_CONNECTION_STRING w of
             None \<Rightarrow> False
           | Some cs \<Rightarrow> cs \<noteq> [] \<and> newMongoClientFault w cs = None
                        \<and> connectFault w = None \<and> pingFault w = None))
      \<and> countDocumentsFault w 0 = None \<and> countDocumentsFault w 1 = None
      \<and> countDocumentsFault w 2 = None \<and> deleteManyFault w = None)"

text \<open>\<open>Object.keys\<close>\<close>

fun objectKeys :: "jsval \<Rightarrow> string list" where
  "objectKeys (Obj kvs) = map fst kvs"
| "objectKeys v = []"

section \<open>Example inputs\<close>

text \<open>A world in which every external call succeeds and vehicle \<open>V1\<close> is registered to
  \<open>a@x.com\<close>, a process that has not connected yet, a geofence that holds one point,
  and a GPS fix as the queue delivers it.\<close>

definition exampleOwner :: vehicle where
  "exampleOwner = \<lparr>vid = Str ''V1'', email = Str ''a@x.com''\<rparr>"

definition exampleWorld :: world where
  "exampleWorld =
     \<lparr>MONGODB_CONNECTION_STRING = Some ''mongodb://store'',
      COMMUNICATION_SERVICES_CONNECTION_STRING = Some ''endpoint=acs'',
      newMongoClientFault = (\<lambda>cs. None),
      connectFault = None,
      pingFault = None,
      findOneAnswer = (\<lambda>v. if v = Str ''V1'' then Inr (Some exampleOwner) else Inr None),
      insertOneFault = None,
      findFault = None,
      updateOneFault = (\<lambda>vId. None),
      countDocumentsFault = (\<lambda>n. None),
      deleteManyFault = None,
      closeFault = None,
      newEmailClientFault = (\<lambda>cs. None),
      beginSendFault = (\<lambda>v. None),
      randomUUID = ''uuid-1'',
      now = (\<lambda>vId. 100)\<rparr>"

definition freshState :: state where
  "freshState = \<lparr>mongoClient = None, database = None, emailClient = None, violations = []\<rparr>"

definition withStore :: "state \<Rightarrow> state" where
  "withStore s = s\<lparr>mongoClient := Some ''mongodb://store'', database := Some ''geofence''\<rparr>"

definition exampleFence :: "jsval \<Rightarrow> jsval \<Rightarrow> bool result" where
  "exampleFence lon lat = Inr (lon = Num (-75) \<and> lat = Num 45)"

definition gpsFix :: "string \<Rightarrow> real \<Rightarrow> real \<Rightarrow> jsval" where
  "gpsFix v lat lon =
     Obj [(''timestamp'', Str ''T1''), (''vehicleId'', Str v),
          (''latitude'', Num lat), (''longitude'', Num lon)]"

definition exampleViolation :: "string \<Rightarrow> date \<Rightarrow> violation" where
  "exampleViolation vId d =
     \<lparr>vehicleId = Str ''V1'', email = Str ''a@x.com'', latitude = Num 50, longitude = Num 50,
      timestamp = Str ''T1'', violationId = vId, warningSent = False, created = d,
      warningSentAt = None\<rparr>"

text \<open>A world in which the ownership lookup fails, one in which the insert fails, the
  world of a second delivery (another UUID, a later clock), and a second delivery in
  which the insert fails.\<close>

definition lookupFails :: world where
  "lookupFails = exampleWorld\<lparr>findOneAnswer := (\<lambda>v. Inl (Error ''store unreachable''))\<rparr>"

definition insertFails :: world where
  "insertFails = exampleWorld\<lparr>insertOneFault := Some (Error ''write failed'')\<rparr>"

definition secondDelivery :: world where
  "secondDelivery = exampleWorld\<lparr>randomUUID := ''uuid-2'', now := (\<lambda>vId. 160)\<rparr>"

definition secondDeliveryInsertFails :: world where
  "secondDeliveryInsertFails = secondDelivery\<lparr>insertOneFault := Some (Error ''write failed'')\<rparr>"

text \<open>The example world at a later time.\<close>

definition laterWorld :: world where
  "laterWorld = exampleWorld\<lparr>now := (\<lambda>vId. 190)\<rparr>"

text \<open>A geofence evaluator that rejects missing coordinates.\<close>

definition strictFence :: "jsval \<Rightarrow> jsval \<Rightarrow> bool result" where
  "strictFence lon lat =
     (if lon = Undefined \<or> lat = Undefined then Inl (Error ''invalid coordinates'')
      else exampleFence lon lat)"

text \<open>A violation whose warning was sent at time 130; three unsent violations; a world
  in which the notifier fails for the second of them and the clock moves between the
  marks; two unsent violations that share a \<open>violationId\<close>.\<close>

definition sentExample :: violation where
  "sentExample = (exampleViolation ''uuid-1'' 100)\<lparr>warningSent := True, warningSentAt := Some 130\<rparr>"




text \<open>Five sent and two unsent violations.\<close>

definition sentViolation :: "string \<Rightarrow> violation" where
  "sentViolation vId = (exampleViolation vId 10)\<lparr>warningSent := True, warningSentAt := Some 60\<rparr>"

definition fiveSentTwoUnsent :: "violation list" where
  "fiveSentTwoUnsent =
     [sentViolation ''s1'', exampleViolation ''u1'' 20, sentViolation ''s2'', sentViolation ''s3'',
      exampleViolation ''u2'' 30, sentViolation ''s4'', sentViolation ''s5'']"

text \<open>A generator whose Service Bus calls succeed and whose draw is a single point, and
  a generator process that has not sent anything yet.\<close>

definition exampleGenWorld :: gen_world where
  "exampleGenWorld =
     \<lparr>SERVICE_BUS_CONNECTION_STRING = Some ''Endpoint=sb://bus'',
      SERVICE_BUS_QUEUE_NAME = None,
      JSON_parse = (\<lambda>body. if body = ''{}'' then Inr (Obj [])
                           else Inl (Error ''Unexpected token in JSON'')),
      logWarnFault = None,
      newServiceBusClientFault = (\<lambda>cs. None),
      createSenderFault = (\<lambda>q. None),
      sendMessagesFault = None,
      generateRandomPointsInRadius =
        (\<lambda>centerLat centerLng radiusKm pointCount.
           Arr [Obj [(''latitude'', Num 45.01), (''longitude'', Num (-75.02))]]),
      toISOString = ''2025-01-01T00:00:00.000Z'',
      randomVehicleId = ''0042''\<rparr>"

definition freshGenState :: gen_state where
  "freshGenState = \<lparr>serviceBusClientInstance = None, serviceBusSenderInstance = None, queue = []\<rparr>"

section \<open>Properties of the ingestion consumer\<close>

subsection \<open>The store service\<close>

lemma getMongoClient_service_violations:
  "getMongoClient_service w s = (r, s') \<Longrightarrow> violations s' = violations s"
  by (auto simp: getMongoClient_service_def Let_def split: option.splits if_splits)

lemma getMongoClient_service_client:
  "getMongoClient_service w s = (Inr u, s') \<Longrightarrow> mongoClient s' \<noteq> None"
  by (auto simp: getMongoClient_service_def Let_def split: option.splits if_splits)

lemma findVehicleUser_violations:
  "findVehicleUser w s v = (r, s') \<Longrightarrow> violations s' = violations s"
  unfolding findVehicleUser_def
  by (auto split: prod.splits sum.splits if_splits dest!: getMongoClient_service_violations)

text \<open>After a lookup that returned, both singletons are set.\<close>

lemma findVehicleUser_connected:
  "findVehicleUser w s v = (Inr r, s') \<Longrightarrow> mongoClient s' \<noteq> None \<and> database s' \<noteq> None"
  unfolding findVehicleUser_def
  by (auto split: prod.splits sum.splits if_splits dest!: getMongoClient_service_client)

lemma storeViolation_failure_violations:
  "storeViolation w s d = (Inl e, s') \<Longrightarrow> violations s' = violations s"
  unfolding storeViolation_def Let_def
  by (auto simp: Let_def split: prod.splits sum.splits option.splits
      dest!: getMongoClient_service_violations)

lemma storeViolation_connected:
  assumes "mongoClient s \<noteq> None" and "database s \<noteq> None" and "insertOneFault w = None"
  shows "storeViolation w s d =
     (Inr (), s\<lparr>violations := violations s @
        [\<lparr>vehicleId = vehicleId d, email = violationData.email d, latitude = latitude d,
          longitude = longitude d, timestamp = timestamp d, violationId = randomUUID w,
          warningSent = False, created = now w (randomUUID w), warningSentAt = None\<rparr>]\<rparr>)"
  using assms by (auto simp: storeViolation_def Let_def getMongoClient_service_def)

text \<open>The path of an outside fix whose owner is found and whose insert succeeds.\<close>

lemma processGpsData_stored:
  assumes "destructure message = Inr (ts, vId, lat, lon)"
    and "isWithinGeofence lon lat = Inr False"
    and "findVehicleUser w s vId = (Inr (Some vehicleRecord), s1)"
    and "insertOneFault w = None"
  shows "processGpsData isWithinGeofence w s message =
           (Inr Stored,
            s1\<lparr>violations := violations s @
                 [\<lparr>vehicleId = vId, email = vehicle.email vehicleRecord, latitude = lat,
                   longitude = lon, timestamp = ts, violationId = randomUUID w,
                   warningSent = False, created = now w (randomUUID w), warningSentAt = None\<rparr>]\<rparr>)"
proof -
  have c: "mongoClient s1 \<noteq> None" "database s1 \<noteq> None"
    using findVehicleUser_connected [OF assms(3)] by simp_all
  have v: "violations s1 = violations s"
    using findVehicleUser_violations [OF assms(3)] .
  show ?thesis
    using assms(1-3) by (simp add: processGpsData_def storeViolation_connected [OF c assms(4)] v)
qed

subsection \<open>The example inputs, evaluated\<close>

lemma gpsFix_destructure:
  "destructure (gpsFix v la lo) = Inr (Str ''T1'', Str v, Num la, Num lo)"
  by (simp add: destructure_def gpsFix_def)

lemma exampleFence_outside: "exampleFence (Num 50) (Num 50) = Inr False"
  by (simp add: exampleFence_def)

lemma exampleFence_inside: "exampleFence (Num (-75)) (Num 45) = Inr True"
  by (simp add: exampleFence_def)

lemma lookup_V1_fresh:
  "findVehicleUser exampleWorld freshState (Str ''V1'')
     = (Inr (Some exampleOwner), withStore freshState)"
  by (simp add: findVehicleUser_def getMongoClient_service_def exampleWorld_def
        freshState_def withStore_def)

lemma lookup_V1_connected:
  "findVehicleUser (exampleWorld\<lparr>randomUUID := u, now := d\<rparr>)
       ((withStore freshState)\<lparr>violations := vs\<rparr>) (Str ''V1'')
     = (Inr (Some exampleOwner), (withStore freshState)\<lparr>violations := vs\<rparr>)"
  by (simp add: findVehicleUser_def getMongoClient_service_def exampleWorld_def
        freshState_def withStore_def)

lemma lookup_V1_store:
  "findVehicleUser exampleWorld (freshState\<lparr>violations := vs\<rparr>) (Str ''V1'')
     = (Inr (Some exampleOwner), (withStore freshState)\<lparr>violations := vs\<rparr>)"
  by (simp add: findVehicleUser_def getMongoClient_service_def exampleWorld_def
        freshState_def withStore_def)

lemma insert_exampleWorld: "insertOneFault exampleWorld = None"
  by (simp add: exampleWorld_def)

subsection \<open>Fixes inside the geofence\<close>

text \<open>
  Claim C9. When the geofence evaluator reports the fix as inside, the consumer returns
  normally on the inside path and the whole state is as before: no violation is added,
  and not even a store connection is opened, so no ownership lookup is made. This holds
  whatever the store would have answered.
\<close>

theorem inside_fix_creates_no_violation:
  assumes "destructure message = Inr (ts, vId, lat, lon)"
    and "isWithinGeofence lon lat = Inr True"
  shows "processGpsData isWithinGeofence w s message = (Inr Inside, s)"
  using assms by (simp add: processGpsData_def)

theorem inside_fix_creates_no_violation_witness:
  "destructure (gpsFix ''V1'' 45 (-75)) = Inr (Str ''T1'', Str ''V1'', Num 45, Num (-75))
   \<and> exampleFence (Num (-75)) (Num 45) = Inr True
   \<and> processGpsData exampleFence exampleWorld freshState (gpsFix ''V1'' 45 (-75))
        = (Inr Inside, freshState)"
  using gpsFix_destructure [of "''V1''" 45 "-75"] exampleFence_inside
    inside_fix_creates_no_violation [where isWithinGeofence = exampleFence,
      OF gpsFix_destructure exampleFence_inside]
  by simp

subsection \<open>Fixes outside the geofence\<close>

text \<open>
  Claim C8. When the fix is outside and the ownership lookup answers that there is no
  record for the vehicle, the consumer returns normally on the no-owner path (it logs
  a warning and drops the event; nothing is thrown, so nothing is redelivered) and the
  violations collection is as before.
\<close>

theorem unowned_fix_is_dropped:
  assumes "destructure message = Inr (ts, vId, lat, lon)"
    and "isWithinGeofence lon lat = Inr False"
    and "findVehicleUser w s vId = (Inr None, s1)"
  shows "processGpsData isWithinGeofence w s message = (Inr NoOwner, s1)
         \<and> violations s1 = violations s"
  using assms findVehicleUser_violations [OF assms(3)] by (simp add: processGpsData_def)

theorem unowned_fix_is_dropped_witness:
  "destructure (gpsFix ''V9'' 50 50) = Inr (Str ''T1'', Str ''V9'', Num 50, Num 50)
   \<and> exampleFence (Num 50) (Num 50) = Inr False
   \<and> findVehicleUser exampleWorld freshState (Str ''V9'') = (Inr None, withStore freshState)
   \<and> processGpsData exampleFence exampleWorld freshState (gpsFix ''V9'' 50 50)
        = (Inr NoOwner, withStore freshState)
   \<and> violations (withStore freshState) = violations freshState"
proof -
  have l: "findVehicleUser exampleWorld freshState (Str ''V9'') = (Inr None, withStore freshState)"
    by (simp add: findVehicleUser_def getMongoClient_service_def exampleWorld_def
        freshState_def withStore_def)
  show ?thesis
    using gpsFix_destructure [of "''V9''" 50 50] exampleFence_outside l
      unowned_fix_is_dropped [where isWithinGeofence = exampleFence,
        OF gpsFix_destructure exampleFence_outside l]
    by simp
qed

text \<open>
  Claim C2, as stated, fails: with the ownership lookup failing on an outside fix, the
  invocation does not fail. The inner \<open>catch (dbError)\<close> logs the error and the handler
  returns normally.
\<close>

theorem store_failure_is_surfaced_counterexample:
  "exampleFence (Num 50) (Num 50) = Inr False
   \<and> fst (findVehicleUser lookupFails freshState (Str ''V1'')) = Inl (Error ''store unreachable'')
   \<and> fst (processGpsData exampleFence lookupFails freshState (gpsFix ''V1'' 50 50))
       = Inr (DatabaseOperationFailed (Error ''store unreachable''))"
  by (simp add: processGpsData_def destructure_def gpsFix_def exampleFence_def findVehicleUser_def
      getMongoClient_service_def lookupFails_def exampleWorld_def freshState_def)

text \<open>
  Claim C2, amended. For an outside fix, when the ownership lookup fails, or the owner
  is found and persisting the violation fails, the consumer logs the store's error and
  returns normally: the error is not surfaced to the caller (so the queue does not
  redeliver the event), and the violations collection is as before.
\<close>

theorem store_failure_is_swallowed:
  assumes "destructure message = Inr (ts, vId, lat, lon)"
    and "isWithinGeofence lon lat = Inr False"
    and "(\<exists>s1. findVehicleUser w s vId = (Inl e, s1))
         \<or> (\<exists>vehicleRecord s1 s2. findVehicleUser w s vId = (Inr (Some vehicleRecord), s1)
              \<and> storeViolation w s1 \<lparr>vehicleId = vId, email = vehicle.email vehicleRecord,
                     latitude = lat, longitude = lon, timestamp = ts\<rparr> = (Inl e, s2))"
  shows "fst (processGpsData isWithinGeofence w s message) = Inr (DatabaseOperationFailed e)
         \<and> violations (snd (processGpsData isWithinGeofence w s message)) = violations s"
proof -
  from assms(3) show ?thesis
  proof (elim disjE exE conjE)
    fix s1
    assume l: "findVehicleUser w s vId = (Inl e, s1)"
    have "violations s1 = violations s"
      using findVehicleUser_violations [OF l] .
    then show ?thesis
      using assms(1,2) l by (simp add: processGpsData_def)
  next
    fix vehicleRecord s1 s2
    assume l: "findVehicleUser w s vId = (Inr (Some vehicleRecord), s1)"
      and p: "storeViolation w s1 \<lparr>vehicleId = vId, email = vehicle.email vehicleRecord,
                latitude = lat, longitude = lon, timestamp = ts\<rparr> = (Inl e, s2)"
    have "violations s2 = violations s"
      using findVehicleUser_violations [OF l] storeViolation_failure_violations [OF p] by simp
    then show ?thesis
      using assms(1,2) l p by (simp add: processGpsData_def)
  qed
qed

theorem store_failure_is_swallowed_witness:
  "destructure (gpsFix ''V1'' 50 50) = Inr (Str ''T1'', Str ''V1'', Num 50, Num 50)
   \<and> exampleFence (Num 50) (Num 50) = Inr False
   \<and> findVehicleUser (exampleWorld\<lparr>insertOneFault := Some (Error ''write failed'')\<rparr>) freshState
        (Str ''V1'') = (Inr (Some exampleOwner), withStore freshState)
   \<and> storeViolation (exampleWorld\<lparr>insertOneFault := Some (Error ''write failed'')\<rparr>)
        (withStore freshState)
        \<lparr>vehicleId = Str ''V1'', email = vehicle.email exampleOwner, latitude = Num 50,
         longitude = Num 50, timestamp = Str ''T1''\<rparr>
        = (Inl (Error ''write failed''), withStore freshState)
   \<and> fst (processGpsData exampleFence (exampleWorld\<lparr>insertOneFault := Some (Error ''write failed'')\<rparr>)
            freshState (gpsFix ''V1'' 50 50)) = Inr (DatabaseOperationFailed (Error ''write failed''))
   \<and> violations (snd (processGpsData exampleFence
            (exampleWorld\<lparr>insertOneFault := Some (Error ''write failed'')\<rparr>)
            freshState (gpsFix ''V1'' 50 50))) = violations freshState"
proof -
  let ?w = "exampleWorld\<lparr>insertOneFault := Some (Error ''write failed'')\<rparr>"
  have l: "findVehicleUser ?w freshState (Str ''V1'')
             = (Inr (Some exampleOwner), withStore freshState)"
    by (simp add: findVehicleUser_def getMongoClient_service_def exampleWorld_def
        freshState_def withStore_def)
  have p: "storeViolation ?w (withStore freshState)
        \<lparr>vehicleId = Str ''V1'', email = vehicle.email exampleOwner, latitude = Num 50,
         longitude = Num 50, timestamp = Str ''T1''\<rparr>
        = (Inl (Error ''write failed''), withStore freshState)"
    by (simp add: storeViolation_def Let_def getMongoClient_service_def exampleWorld_def
        freshState_def withStore_def)
  have h: "(\<exists>s1. findVehicleUser ?w freshState (Str ''V1'') = (Inl (Error ''write failed''), s1))
         \<or> (\<exists>vehicleRecord s1 s2.
               findVehicleUser ?w freshState (Str ''V1'') = (Inr (Some vehicleRecord), s1)
              \<and> storeViolation ?w s1 \<lparr>vehicleId = Str ''V1'', email = vehicle.email vehicleRecord,
                     latitude = Num 50, longitude = Num 50, timestamp = Str ''T1''\<rparr>
                  = (Inl (Error ''write failed''), s2))"
    using l p by blast
  show ?thesis
    using gpsFix_destructure [of "''V1''" 50 50] exampleFence_outside l p
      store_failure_is_swallowed [where isWithinGeofence = exampleFence,
        OF gpsFix_destructure exampleFence_outside h]
    by simp
qed

text \<open>
  Claim C3, as stated, fails in two ways. With the ownership record found and the insert
  failing, no violation is persisted and the consumer returns normally. And the id is
  whatever \<open>randomUUID()\<close> draws: with a draw that equals the id of a stored violation,
  the new violation carries that same id.
\<close>

theorem owned_fix_always_stores_fresh_counterexample:
  "exampleFence (Num 50) (Num 50) = Inr False
   \<and> findVehicleUser insertFails freshState (Str ''V1'')
        = (Inr (Some exampleOwner), withStore freshState)
   \<and> processGpsData exampleFence insertFails freshState (gpsFix ''V1'' 50 50)
        = (Inr (DatabaseOperationFailed (Error ''write failed'')), withStore freshState)
   \<and> violations (withStore freshState) = []
   \<and> randomUUID exampleWorld = violationId (exampleViolation ''uuid-1'' 90)
   \<and> processGpsData exampleFence exampleWorld
          (freshState\<lparr>violations := [exampleViolation ''uuid-1'' 90]\<rparr>) (gpsFix ''V1'' 50 50)
        = (Inr Stored,
           (withStore freshState)\<lparr>violations :=
              [exampleViolation ''uuid-1'' 90, exampleViolation ''uuid-1'' 100]\<rparr>)"
  by (simp add: processGpsData_def destructure_def gpsFix_def exampleFence_def findVehicleUser_def
      storeViolation_def Let_def getMongoClient_service_def insertFails_def exampleWorld_def
      freshState_def withStore_def exampleViolation_def exampleOwner_def)

text \<open>
  Claim C3, amended. When the fix is outside, the ownership lookup resolves the vehicle
  to a record and the insert succeeds, the consumer returns on the stored path and the
  violations collection is the old one with exactly one document appended. That document
  carries as \<open>violationId\<close> the UUID that \<open>randomUUID()\<close> drew in this invocation, the
  e-mail of the ownership record, the coordinates and the timestamp of the fix, and
  \<open>warningSent = false\<close>. Nothing compares the draw with the stored ids: when the draw
  is not the id of a stored violation and the stored ids are unique, the ids are unique
  afterwards too.
\<close>

theorem owned_fix_creates_one_violation:
  assumes "destructure message = Inr (ts, vId, lat, lon)"
    and "isWithinGeofence lon lat = Inr False"
    and "findVehicleUser w s vId = (Inr (Some vehicleRecord), s1)"
    and "insertOneFault w = None"
  shows "processGpsData isWithinGeofence w s message =
           (Inr Stored,
            s1\<lparr>violations := violations s @
                 [\<lparr>vehicleId = vId, email = vehicle.email vehicleRecord, latitude = lat,
                   longitude = lon, timestamp = ts, violationId = randomUUID w,
                   warningSent = False, created = now w (randomUUID w),
                   warningSentAt = None\<rparr>]\<rparr>)
     \<and> length (violations (snd (processGpsData isWithinGeofence w s message)))
           = length (violations s) + 1
     \<and> (randomUUID w \<notin> violationId ` set (violations s) \<longrightarrow>
          distinct (map violationId (violations s)) \<longrightarrow>
          distinct (map violationId
             (violations (snd (processGpsData isWithinGeofence w s message)))))"
  using processGpsData_stored [where isWithinGeofence = isWithinGeofence, OF assms] by simp

theorem owned_fix_creates_one_violation_witness:
  "destructure (gpsFix ''V1'' 50 50) = Inr (Str ''T1'', Str ''V1'', Num 50, Num 50)
   \<and> exampleFence (Num 50) (Num 50) = Inr False
   \<and> findVehicleUser exampleWorld (freshState\<lparr>violations := [exampleViolation ''uuid-0'' 90]\<rparr>)
          (Str ''V1'')
        = (Inr (Some exampleOwner),
           (withStore freshState)\<lparr>violations := [exampleViolation ''uuid-0'' 90]\<rparr>)
   \<and> insertOneFault exampleWorld = None
   \<and> randomUUID exampleWorld
        \<notin> violationId ` set (violations (freshState\<lparr>violations := [exampleViolation ''uuid-0'' 90]\<rparr>))
   \<and> distinct (map violationId
         (violations (freshState\<lparr>violations := [exampleViolation ''uuid-0'' 90]\<rparr>)))
   \<and> processGpsData exampleFence exampleWorld
          (freshState\<lparr>violations := [exampleViolation ''uuid-0'' 90]\<rparr>) (gpsFix ''V1'' 50 50)
        = (Inr Stored,
           (withStore freshState)\<lparr>violations :=
              [exampleViolation ''uuid-0'' 90, exampleViolation ''uuid-1'' 100]\<rparr>)
   \<and> distinct (map violationId [exampleViolation ''uuid-0'' 90, exampleViolation ''uuid-1'' 100])"
proof -
  let ?s = "freshState\<lparr>violations := [exampleViolation ''uuid-0'' 90]\<rparr>"
  have l: "findVehicleUser exampleWorld ?s (Str ''V1'')
        = (Inr (Some exampleOwner),
           (withStore freshState)\<lparr>violations := [exampleViolation ''uuid-0'' 90]\<rparr>)"
    by (rule lookup_V1_store)
  have f: "randomUUID exampleWorld \<notin> violationId ` set (violations ?s)"
    by (simp add: exampleWorld_def exampleViolation_def)
  have d: "distinct (map violationId (violations ?s))"
    by simp
  show ?thesis
    using gpsFix_destructure [of "''V1''" 50 50] exampleFence_outside l insert_exampleWorld f d
      owned_fix_creates_one_violation [where isWithinGeofence = exampleFence,
        OF gpsFix_destructure exampleFence_outside l insert_exampleWorld]
    by (simp add: exampleViolation_def exampleOwner_def exampleWorld_def freshState_def)
qed

text \<open>
  Claim C6, as stated, fails in two ways. When the insert of the second delivery fails,
  the two deliveries leave one violation, not two. And when \<open>randomUUID()\<close> draws the
  same id in both deliveries, the two violations carry the same \<open>violationId\<close>.
\<close>

theorem redelivery_always_two_distinct_counterexample:
  "processGpsData exampleFence exampleWorld freshState (gpsFix ''V1'' 50 50)
     = (Inr Stored, (withStore freshState)\<lparr>violations := [exampleViolation ''uuid-1'' 100]\<rparr>)
   \<and> processGpsData exampleFence secondDeliveryInsertFails
        ((withStore freshState)\<lparr>violations := [exampleViolation ''uuid-1'' 100]\<rparr>)
        (gpsFix ''V1'' 50 50)
     = (Inr (DatabaseOperationFailed (Error ''write failed'')),
        (withStore freshState)\<lparr>violations := [exampleViolation ''uuid-1'' 100]\<rparr>)
   \<and> processGpsData exampleFence exampleWorld
        ((withStore freshState)\<lparr>violations := [exampleViolation ''uuid-1'' 100]\<rparr>)
        (gpsFix ''V1'' 50 50)
     = (Inr Stored,
        (withStore freshState)\<lparr>violations :=
           [exampleViolation ''uuid-1'' 100, exampleViolation ''uuid-1'' 100]\<rparr>)"
  by (simp add: processGpsData_def destructure_def gpsFix_def exampleFence_def findVehicleUser_def
      storeViolation_def Let_def getMongoClient_service_def secondDeliveryInsertFails_def
      secondDelivery_def exampleWorld_def freshState_def withStore_def exampleViolation_def
      exampleOwner_def)

text \<open>
  Claim C6, amended. Ingestion is not idempotent under redelivery. When the same outside
  fix is delivered twice, and in both deliveries the owner is found and the insert
  succeeds, both deliveries return on the stored path and the violations collection ends
  with two appended documents, one per delivery and equal in vehicle, e-mail,
  coordinates and timestamp, each carrying as \<open>violationId\<close> the UUID drawn by
  \<open>randomUUID()\<close> in its delivery; their ids differ exactly when the two draws differ.
  Nothing looks for an earlier violation of the same vehicle.
\<close>

theorem redelivery_creates_two_violations:
  assumes "destructure message = Inr (ts, vId, lat, lon)"
    and "isWithinGeofence lon lat = Inr False"
    and "findVehicleUser w1 s vId = (Inr (Some r1), s1)"
    and "insertOneFault w1 = None"
    and "findVehicleUser w2 (snd (processGpsData isWithinGeofence w1 s message)) vId
           = (Inr (Some r2), s2)"
    and "insertOneFault w2 = None"
  shows "fst (processGpsData isWithinGeofence w1 s message) = Inr Stored
     \<and> processGpsData isWithinGeofence w2
           (snd (processGpsData isWithinGeofence w1 s message)) message =
           (Inr Stored,
            s2\<lparr>violations := violations s @
                 [\<lparr>vehicleId = vId, email = vehicle.email r1, latitude = lat,
                   longitude = lon, timestamp = ts, violationId = randomUUID w1,
                   warningSent = False, created = now w1 (randomUUID w1),
                   warningSentAt = None\<rparr>,
                  \<lparr>vehicleId = vId, email = vehicle.email r2, latitude = lat,
                   longitude = lon, timestamp = ts, violationId = randomUUID w2,
                   warningSent = False, created = now w2 (randomUUID w2),
                   warningSentAt = None\<rparr>]\<rparr>)
     \<and> length (violations (snd (processGpsData isWithinGeofence w2
           (snd (processGpsData isWithinGeofence w1 s message)) message)))
         = length (violations s) + 2
     \<and> (map violationId (drop (length (violations s))
           (violations (snd (processGpsData isWithinGeofence w2
              (snd (processGpsData isWithinGeofence w1 s message)) message))))
         = [randomUUID w1, randomUUID w2])"
proof -
  let ?s' = "snd (processGpsData isWithinGeofence w1 s message)"
  have first: "processGpsData isWithinGeofence w1 s message =
           (Inr Stored,
            s1\<lparr>violations := violations s @
                 [\<lparr>vehicleId = vId, email = vehicle.email r1, latitude = lat,
                   longitude = lon, timestamp = ts, violationId = randomUUID w1,
                   warningSent = False, created = now w1 (randomUUID w1),
                   warningSentAt = None\<rparr>]\<rparr>)"
    using processGpsData_stored [where isWithinGeofence = isWithinGeofence, OF assms(1-4)] .
  have second: "processGpsData isWithinGeofence w2 ?s' message =
           (Inr Stored,
            s2\<lparr>violations := violations ?s' @
                 [\<lparr>vehicleId = vId, email = vehicle.email r2, latitude = lat,
                   longitude = lon, timestamp = ts, violationId = randomUUID w2,
                   warningSent = False, created = now w2 (randomUUID w2),
                   warningSentAt = None\<rparr>]\<rparr>)"
    using processGpsData_stored [where isWithinGeofence = isWithinGeofence, OF assms(1,2,5,6)] .
  show ?thesis
    using first second by simp
qed

theorem redelivery_creates_two_violations_witness:
  "destructure (gpsFix ''V1'' 50 50) = Inr (Str ''T1'', Str ''V1'', Num 50, Num 50)
   \<and> exampleFence (Num 50) (Num 50) = Inr False
   \<and> findVehicleUser exampleWorld freshState (Str ''V1'')
        = (Inr (Some exampleOwner), withStore freshState)
   \<and> insertOneFault exampleWorld = None
   \<and> findVehicleUser secondDelivery
        (snd (processGpsData exampleFence exampleWorld freshState (gpsFix ''V1'' 50 50))) (Str ''V1'')
        = (Inr (Some exampleOwner),
           (withStore freshState)\<lparr>violations := [exampleViolation ''uuid-1'' 100]\<rparr>)
   \<and> insertOneFault secondDelivery = None
   \<and> processGpsData exampleFence secondDelivery
        (snd (processGpsData exampleFence exampleWorld freshState (gpsFix ''V1'' 50 50)))
        (gpsFix ''V1'' 50 50)
        = (Inr Stored,
           (withStore freshState)\<lparr>violations :=
              [exampleViolation ''uuid-1'' 100, exampleViolation ''uuid-2'' 160]\<rparr>)
   \<and> map violationId [exampleViolation ''uuid-1'' 100, exampleViolation ''uuid-2'' 160]
        = [''uuid-1'', ''uuid-2'']"
proof -
  let ?s' = "snd (processGpsData exampleFence exampleWorld freshState (gpsFix ''V1'' 50 50))"
  have i2: "insertOneFault secondDelivery = None"
    by (simp add: secondDelivery_def exampleWorld_def)
  have s': "?s' = (withStore freshState)\<lparr>violations := [exampleViolation ''uuid-1'' 100]\<rparr>"
    using processGpsData_stored [where isWithinGeofence = exampleFence,
        OF gpsFix_destructure exampleFence_outside lookup_V1_fresh insert_exampleWorld]
    by (simp add: exampleViolation_def exampleOwner_def exampleWorld_def freshState_def)
  have l2: "findVehicleUser secondDelivery ?s' (Str ''V1'')
        = (Inr (Some exampleOwner),
           (withStore freshState)\<lparr>violations := [exampleViolation ''uuid-1'' 100]\<rparr>)"
    unfolding s' secondDelivery_def by (rule lookup_V1_connected)
  show ?thesis
    using gpsFix_destructure [of "''V1''" 50 50] exampleFence_outside lookup_V1_fresh
      insert_exampleWorld l2 i2
      redelivery_creates_two_violations [where isWithinGeofence = exampleFence,
        OF gpsFix_destructure exampleFence_outside lookup_V1_fresh insert_exampleWorld l2 i2]
    by (simp add: exampleViolation_def exampleOwner_def exampleWorld_def secondDelivery_def
        freshState_def)
qed

section \<open>Properties of the notification scanner\<close>

subsection \<open>Marking a violation as warned\<close>

lemma setWarned_id [simp]: "violationId (setWarned d doc) = violationId doc"
  by (simp add: setWarned_def)

lemma setWarned_same: "setWarned d doc = doc \<longleftrightarrow> warningSent doc \<and> warningSentAt doc = Some d"
  by (cases doc) (auto simp: setWarned_def)

lemma setWarned_idem [simp]: "setWarned d (setWarned d doc) = setWarned d doc"
  by (simp add: setWarned_def)

lemma updateOne_distinct:
  "distinct (map violationId docs) \<Longrightarrow>
   snd (updateOne vId d docs) = map (\<lambda>x. if violationId x = vId then setWarned d x else x) docs"
proof (induction docs)
  case Nil
  then show ?case by simp
next
  case (Cons doc docs)
  show ?case
  proof (cases "violationId doc = vId")
    case True
    then have "\<forall>x\<in>set docs. violationId x \<noteq> vId"
      using Cons.prems by (metis distinct.simps(2) imageI list.simps(9) set_map)
    then have "map (\<lambda>x. if violationId x = vId then setWarned d x else x) docs = docs"
      by (simp add: map_idI)
    then show ?thesis
      using True by simp
  next
    case False
    then show ?thesis
      using Cons by (auto split: prod.splits)
  qed
qed

lemma updateOne_result:
  "doc \<in> set docs \<Longrightarrow> distinct (map violationId docs) \<Longrightarrow>
   fst (updateOne (violationId doc) d docs) =
     \<lparr>matchedCount = 1, modifiedCount = (if setWarned d doc = doc then 0 else 1)\<rparr>"
proof (induction docs)
  case Nil
  then show ?case by simp
next
  case (Cons x docs)
  then show ?case by (auto split: prod.splits)
qed

lemma updateOne_absent:
  "vId \<notin> violationId ` set docs \<Longrightarrow>
   updateOne vId d docs = (\<lparr>matchedCount = 0, modifiedCount = 0\<rparr>, docs)"
  by (induction docs) auto

text \<open>
  Claim C1, amended. \<open>markViolationAsWarned\<close> filters by \<open>violationId\<close> alone. Invoked
  on the \<open>violationId\<close> of a record that is already sent (with the store reachable and
  ids unique), it matches that record (\<open>matchedCount = 1\<close>), leaves it sent and overwrites
  its \<open>warningSentAt\<close> with the current time; it counts as modified unless the time is
  the one already stored. No other record changes.
\<close>

theorem mark_sent_is_not_conditional:
  assumes "getMongoClient_scanner w s = (Inr (), s1)"
    and "database s1 \<noteq> None"
    and "updateOneFault w (violationId doc) = None"
    and "doc \<in> set (violations s)"
    and "distinct (map violationId (violations s))"
    and "warningSent doc"
  shows "markViolationAsWarned w s (violationId doc) =
           (Inr \<lparr>matchedCount = 1,
                 modifiedCount = (if warningSentAt doc = Some (now w (violationId doc)) then 0 else 1)\<rparr>,
            s1\<lparr>violations :=
                 map (\<lambda>x. if violationId x = violationId doc
                           then x\<lparr>warningSentAt := Some (now w (violationId doc))\<rparr> else x) (violations s)\<rparr>)"
proof -
  have v: "violations s1 = violations s"
    using assms(1)
    by (auto simp: getMongoClient_scanner_def Let_def split: if_splits option.splits)
  have r: "fst (updateOne (violationId doc) (now w (violationId doc)) (violations s)) =
      \<lparr>matchedCount = 1, modifiedCount = (if warningSentAt doc = Some (now w (violationId doc)) then 0 else 1)\<rparr>"
    using updateOne_result [OF assms(4,5)] assms(6) by (simp add: setWarned_same)
  have same: "\<And>x. x \<in> set (violations s) \<Longrightarrow> violationId x = violationId doc \<Longrightarrow> x = doc"
    using assms(4,5) by (meson distinct_map inj_onD)
  have "snd (updateOne (violationId doc) (now w (violationId doc)) (violations s)) =
      map (\<lambda>x. if violationId x = violationId doc then setWarned (now w (violationId doc)) x else x) (violations s)"
    using updateOne_distinct [OF assms(5)] .
  also have "\<dots> = map (\<lambda>x. if violationId x = violationId doc
                           then x\<lparr>warningSentAt := Some (now w (violationId doc))\<rparr> else x) (violations s)"
  proof (rule map_cong [OF refl])
    fix x assume "x \<in> set (violations s)"
    then show "(if violationId x = violationId doc then setWarned (now w (violationId doc)) x else x) =
               (if violationId x = violationId doc then x\<lparr>warningSentAt := Some (now w (violationId doc))\<rparr> else x)"
      using same [of x] assms(6) by (auto simp: setWarned_def)
  qed
  finally have d: "snd (updateOne (violationId doc) (now w (violationId doc)) (violations s)) =
      map (\<lambda>x. if violationId x = violationId doc
                then x\<lparr>warningSentAt := Some (now w (violationId doc))\<rparr> else x) (violations s)" .
  show ?thesis
    using assms(1-3) r d v
    by (auto simp: markViolationAsWarned_def split: prod.splits)
qed

text \<open>
  Claim C1, as stated, fails: on a record that is already sent, \<open>markViolationAsWarned\<close>
  reports \<open>matchedCount = 1\<close> and rewrites \<open>warningSentAt\<close>.
\<close>

theorem mark_sent_is_noop_counterexample:
  "warningSent sentExample
   \<and> markViolationAsWarned (laterWorld)
        ((withStore freshState)\<lparr>violations := [sentExample]\<rparr>) (violationId sentExample)
      = (Inr \<lparr>matchedCount = 1, modifiedCount = 1\<rparr>,
         (withStore freshState)\<lparr>violations := [sentExample\<lparr>warningSentAt := Some 190\<rparr>]\<rparr>)
   \<and> sentExample\<lparr>warningSentAt := Some 190\<rparr> \<noteq> sentExample"
  by (simp add: markViolationAsWarned_def getMongoClient_scanner_def sentExample_def
      exampleViolation_def laterWorld_def exampleWorld_def withStore_def freshState_def
      setWarned_def)

theorem mark_sent_is_not_conditional_witness:
  "getMongoClient_scanner (laterWorld)
       (freshState\<lparr>violations := [exampleViolation ''uuid-0'' 90, sentExample]\<rparr>)
     = (Inr (), (withStore freshState)\<lparr>violations := [exampleViolation ''uuid-0'' 90, sentExample]\<rparr>)
   \<and> database ((withStore freshState)\<lparr>violations := [exampleViolation ''uuid-0'' 90, sentExample]\<rparr>) \<noteq> None
   \<and> updateOneFault (laterWorld) (violationId sentExample) = None
   \<and> sentExample \<in> set (violations (freshState\<lparr>violations := [exampleViolation ''uuid-0'' 90, sentExample]\<rparr>))
   \<and> distinct (map violationId
         (violations (freshState\<lparr>violations := [exampleViolation ''uuid-0'' 90, sentExample]\<rparr>)))
   \<and> warningSent sentExample
   \<and> markViolationAsWarned (laterWorld)
        (freshState\<lparr>violations := [exampleViolation ''uuid-0'' 90, sentExample]\<rparr>)
        (violationId sentExample)
      = (Inr \<lparr>matchedCount = 1, modifiedCount = 1\<rparr>,
         (withStore freshState)\<lparr>violations :=
            [exampleViolation ''uuid-0'' 90, sentExample\<lparr>warningSentAt := Some 190\<rparr>]\<rparr>)"
proof -
  let ?w = "laterWorld"
  let ?s = "freshState\<lparr>violations := [exampleViolation ''uuid-0'' 90, sentExample]\<rparr>"
  let ?s1 = "(withStore freshState)\<lparr>violations := [exampleViolation ''uuid-0'' 90, sentExample]\<rparr>"
  have c: "getMongoClient_scanner ?w ?s = (Inr (), ?s1)"
    by (simp add: getMongoClient_scanner_def laterWorld_def exampleWorld_def freshState_def withStore_def)
  have d: "database ?s1 \<noteq> None"
    by (simp add: withStore_def)
  have u: "updateOneFault ?w (violationId sentExample) = None"
    by (simp add: laterWorld_def exampleWorld_def)
  have m: "sentExample \<in> set (violations ?s)"
    by simp
  have i: "distinct (map violationId (violations ?s))"
    by (simp add: sentExample_def exampleViolation_def)
  have t: "warningSent sentExample"
    by (simp add: sentExample_def)
  show ?thesis
    using c d u m i t mark_sent_is_not_conditional [OF c d u m i t]
    by (simp add: sentExample_def exampleViolation_def laterWorld_def exampleWorld_def)
qed

subsection \<open>The scanner's loop\<close>











section \<open>Properties of the purge sweeper\<close>

lemma getMongoClient_purge_state:
  "getMongoClient_purge w s = (r, s') \<Longrightarrow>
     violations s' = violations s \<and> (r = Inr () \<longrightarrow> mongoClient s' \<noteq> None \<and> database s' \<noteq> None)"
  by (auto simp: getMongoClient_purge_def Let_def split: if_splits option.splits)

lemma getMongoClient_purge_connected:
  "mongoClient s \<noteq> None \<Longrightarrow> database s \<noteq> None \<Longrightarrow> getMongoClient_purge w s = (Inr (), s)"
  by (simp add: getMongoClient_purge_def)

lemma no_sent_filter:
  "length (filter warningSent docs) = 0 \<Longrightarrow> filter (\<lambda>d. \<not> warningSent d) docs = docs"
  by (induction docs) (auto split: if_splits)

lemma purgeProcessedViolations_connected:
  assumes "mongoClient s \<noteq> None" and "database s \<noteq> None"
  shows "purgeProcessedViolations w s =
     (case countDocumentsFault w 1 of
        Some error \<Rightarrow> (Inl error, s)
      | None \<Rightarrow>
          (if length (filter warningSent (violations s)) = 0 then (Inr 0, s)
           else (case deleteManyFault w of
                   Some error \<Rightarrow> (Inl error, s)
                 | None \<Rightarrow> (Inr (length (filter warningSent (violations s))),
                            s\<lparr>violations := filter (\<lambda>d. \<not> warningSent d) (violations s)\<rparr>))))"
proof -
  obtain c d where "mongoClient s = Some c" and "database s = Some d"
    using assms by auto
  then show ?thesis
    by (simp add: purgeProcessedViolations_def getMongoClient_purge_def countDocuments_def
        deleteMany_def Let_def split: option.splits)
qed

lemma purgeProcessedViolations_state:
  assumes "mongoClient s \<noteq> None" and "database s \<noteq> None"
    and "purgeProcessedViolations w s = (r, s')"
  shows "mongoClient s' = mongoClient s \<and> database s' = database s
     \<and> filter (\<lambda>d. \<not> warningSent d) (violations s') = filter (\<lambda>d. \<not> warningSent d) (violations s)
     \<and> (\<forall>n. r = Inr n \<longrightarrow> violations s' = filter (\<lambda>d. \<not> warningSent d) (violations s)
                            \<and> n = length (filter warningSent (violations s)))"
  using assms(3) no_sent_filter [of "violations s"]
  unfolding purgeProcessedViolations_connected [OF assms(1,2)]
  by (auto split: option.splits if_splits)

lemma cleanupResources_purge_violations [simp]:
  "violations (cleanupResources_purge s) = violations s"
  by (simp add: cleanupResources_purge_def)

text \<open>A run either throws and leaves the unsent violations as they were, or returns
  the metrics of a complete purge.\<close>

lemma purgeHandler_cases:
  "(\<exists>e. fst (purgeHandler w s) = Inl e
        \<and> filter (\<lambda>d. \<not> warningSent d) (violations (snd (purgeHandler w s)))
            = filter (\<lambda>d. \<not> warningSent d) (violations s))
   \<or> (fst (purgeHandler w s) =
         Inr \<lparr>violationsCountBefore = length (violations s),
              violationsCountAfter = length (filter (\<lambda>d. \<not> warningSent d) (violations s)),
              purgedCount = length (filter warningSent (violations s))\<rparr>
       \<and> violations (snd (purgeHandler w s)) = filter (\<lambda>d. \<not> warningSent d) (violations s))"
proof -
  obtain r s1 where g: "getMongoClient_purge w s = (r, s1)"
    by (cases "getMongoClient_purge w s")
  note gs = getMongoClient_purge_state [OF g]
  show ?thesis
  proof (cases r)
    case (Inl e)
    then show ?thesis
      using g gs by (simp add: purgeHandler_def)
  next
    case (Inr u)
    then have c: "mongoClient s1 \<noteq> None" "database s1 \<noteq> None"
      using gs by simp_all
    obtain r2 s2 where p: "purgeProcessedViolations w s1 = (r2, s2)"
      by (cases "purgeProcessedViolations w s1")
    note ps = purgeProcessedViolations_state [OF c p]
    show ?thesis
      using g Inr c p ps gs
      by (cases r2) (auto simp: purgeHandler_def countDocuments_def Let_def split: option.splits)
  qed
qed

lemma purgeHandler_reachable:
  assumes "purgeStoreReachable w s"
  shows "\<exists>report. fst (purgeHandler w s) = Inr report"
proof -
  have "\<exists>s1. getMongoClient_purge w s = (Inr (), s1)"
  proof (cases "mongoClient s \<noteq> None \<and> database s \<noteq> None")
    case True
    then show ?thesis
      by (simp add: getMongoClient_purge_connected)
  next
    case False
    then obtain cs where "MONGODB_CONNECTION_STRING w = Some cs" and "cs \<noteq> []"
      and "newMongoClientFault w cs = None" and "connectFault w = None" and "pingFault w = None"
      using assms by (auto simp: purgeStoreReachable_def split: option.splits)
    then show ?thesis
      using False by (simp add: getMongoClient_purge_def)
  qed
  then obtain s1 where g: "getMongoClient_purge w s = (Inr (), s1)"
    by blast
  note gs = getMongoClient_purge_state [OF g]
  have c: "mongoClient s1 \<noteq> None" "database s1 \<noteq> None"
    using gs by simp_all
  show ?thesis
    using assms g c
    by (auto simp: purgeStoreReachable_def purgeHandler_def purgeProcessedViolations_connected [OF c]
        countDocuments_def Let_def split: option.splits)
qed

text \<open>
  Claim C4. For every store state and whatever fails, a purge run leaves the unsent
  violations exactly as they were. A run that returns normally has deleted exactly the
  sent violations: what remains are the unsent ones, and the reported count is the
  number of sent ones. With the store reachable the run does return normally.
\<close>

theorem purge_deletes_exactly_sent:
  "filter (\<lambda>d. \<not> warningSent d) (violations (snd (purgeHandler w s)))
     = filter (\<lambda>d. \<not> warningSent d) (violations s)
   \<and> (\<forall>report. fst (purgeHandler w s) = Inr report \<longrightarrow>
         violations (snd (purgeHandler w s)) = filter (\<lambda>d. \<not> warningSent d) (violations s)
         \<and> purgedCount report = length (filter warningSent (violations s))
         \<and> violationsCountBefore report = length (violations s)
         \<and> violationsCountAfter report = length (violations s) - purgedCount report)
   \<and> (purgeStoreReachable w s \<longrightarrow> (\<exists>report. fst (purgeHandler w s) = Inr report))"
proof -
  have len: "length (filter (\<lambda>d. \<not> warningSent d) (violations s))
      = length (violations s) - length (filter warningSent (violations s))"
    using sum_length_filter_compl [of warningSent "violations s"] by simp
  show ?thesis
    using purgeHandler_cases [of w s] purgeHandler_reachable [of w s] len
    by auto
qed

theorem purge_deletes_exactly_sent_witness:
  "purgeStoreReachable exampleWorld (freshState\<lparr>violations := fiveSentTwoUnsent\<rparr>)
   \<and> length (filter warningSent fiveSentTwoUnsent) = 5
   \<and> length (filter (\<lambda>d. \<not> warningSent d) fiveSentTwoUnsent) = 2
   \<and> fst (purgeHandler exampleWorld (freshState\<lparr>violations := fiveSentTwoUnsent\<rparr>))
       = Inr \<lparr>violationsCountBefore = 7, violationsCountAfter = 2, purgedCount = 5\<rparr>
   \<and> violations (snd (purgeHandler exampleWorld (freshState\<lparr>violations := fiveSentTwoUnsent\<rparr>)))
       = [exampleViolation ''u1'' 20, exampleViolation ''u2'' 30]"
proof -
  let ?s = "freshState\<lparr>violations := fiveSentTwoUnsent\<rparr>"
  have r: "purgeStoreReachable exampleWorld ?s"
    by (simp add: purgeStoreReachable_def exampleWorld_def)
  have s: "warningSent (sentViolation vId)" for vId
    by (simp add: sentViolation_def)
  have u: "\<not> warningSent (exampleViolation vId d)" for vId d
    by (simp add: exampleViolation_def)
  have v: "violations ?s = fiveSentTwoUnsent"
    by simp
  obtain report where rep: "fst (purgeHandler exampleWorld ?s) = Inr report"
    using purge_deletes_exactly_sent [of exampleWorld ?s] r by blast
  have "violations (snd (purgeHandler exampleWorld ?s)) = filter (\<lambda>d. \<not> warningSent d) (violations ?s)
         \<and> purgedCount report = length (filter warningSent (violations ?s))
         \<and> violationsCountBefore report = length (violations ?s)
         \<and> violationsCountAfter report = length (violations ?s) - purgedCount report"
    using purge_deletes_exactly_sent [of exampleWorld ?s] rep by blast
  then have "violations (snd (purgeHandler exampleWorld ?s)) = [exampleViolation ''u1'' 20, exampleViolation ''u2'' 30]
      \<and> report = \<lparr>violationsCountBefore = 7, violationsCountAfter = 2, purgedCount = 5\<rparr>"
    unfolding v by (simp add: fiveSentTwoUnsent_def s u)
  then show ?thesis
    using r rep by (simp add: fiveSentTwoUnsent_def s u)
qed

section \<open>Properties of the generator\<close>

lemma getServiceBusClient_queue:
  "getServiceBusClient w g = (r, g') \<Longrightarrow> queue g' = queue g"
  by (auto simp: getServiceBusClient_def split: if_splits option.splits)

lemma getServiceBusSender_queue:
  "getServiceBusSender w g q = (r, g') \<Longrightarrow> queue g' = queue g"
  by (auto simp: getServiceBusSender_def split: if_splits option.splits prod.splits sum.splits
      dest!: getServiceBusClient_queue)

lemma gpsMessage_keys:
  "objectKeys (gpsMessage w a b c d) = [''timestamp'', ''vehicleId'', ''center'', ''radiusKm'', ''points'']"
  by (simp add: gpsMessage_def)

lemma gpsMessage_destructure:
  "destructure (gpsMessage w a b c d) =
     Inr (Str (toISOString w), Str (randomVehicleId w), Undefined, Undefined)"
  by (simp add: gpsMessage_def destructure_def)

lemma generateGpsPoints_cases:
  "(queue (snd (generateGpsPoints w g request)) = queue g
      \<and> (\<exists>e. fst (generateGpsPoints w g request) = Response500 e))
   \<or> (\<exists>a b c d. queue (snd (generateGpsPoints w g request)) = queue g @ [gpsMessage w a b c d]
      \<and> fst (generateGpsPoints w g request) = Response200 (gpsMessage w a b c d))"
  unfolding generateGpsPoints_def
  by (auto simp: Let_def split: sum.splits prod.splits option.splits
      dest!: getServiceBusSender_queue)

lemma processGpsData_gpsMessage:
  "processGpsData isWithinGeofence w' s (gpsMessage w a b c d) =
   processGpsData (\<lambda>lon lat. isWithinGeofence Undefined Undefined) w' s (gpsMessage w a b c d)"
  by (simp add: processGpsData_def gpsMessage_destructure)

lemma processGpsData_throws:
  assumes "destructure message = Inr (ts, vId, lat, lon)"
    and "isWithinGeofence lon lat = Inl e"
  shows "processGpsData isWithinGeofence w s message = (Inl e, s)"
  using assms by (simp add: processGpsData_def)

text \<open>
  Claim C10. A request to the generator either ends with status 500 and nothing sent, or
  sends exactly one message, whose top-level fields are \<open>timestamp\<close>, \<open>vehicleId\<close>,
  \<open>center\<close>, \<open>radiusKm\<close> and \<open>points\<close>. Such a message has no top-level \<open>latitude\<close> or
  \<open>longitude\<close>: when it is delivered unchanged to the ingestion consumer, both
  destructure to \<open>undefined\<close>, and the geofence evaluator is called with \<open>undefined\<close>
  for both coordinates: an evaluator that throws on them makes the consumer throw that
  error, and the consumer's result depends on the evaluator only through its answer for
  them.
\<close>

theorem generated_message_has_no_coordinates:
  "(queue (snd (generateGpsPoints w g request)) = queue g
      \<and> (\<exists>e. fst (generateGpsPoints w g request) = Response500 e))
   \<or> (\<exists>m ts vId.
         queue (snd (generateGpsPoints w g request)) = queue g @ [m]
       \<and> fst (generateGpsPoints w g request) = Response200 m
       \<and> objectKeys m = [''timestamp'', ''vehicleId'', ''center'', ''radiusKm'', ''points'']
       \<and> getField m ''latitude'' = Inr Undefined
       \<and> getField m ''longitude'' = Inr Undefined
       \<and> destructure m = Inr (ts, vId, Undefined, Undefined)
       \<and> (\<forall>isWithinGeofence w' s e.
             isWithinGeofence Undefined Undefined = Inl e \<longrightarrow>
             processGpsData isWithinGeofence w' s m = (Inl e, s))
       \<and> (\<forall>isWithinGeofence w' s.
             processGpsData isWithinGeofence w' s m =
             processGpsData (\<lambda>lon lat. isWithinGeofence Undefined Undefined) w' s m))"
proof -
  have shape: "objectKeys (gpsMessage w a b c d)
        = [''timestamp'', ''vehicleId'', ''center'', ''radiusKm'', ''points'']
      \<and> getField (gpsMessage w a b c d) ''latitude'' = Inr Undefined
      \<and> getField (gpsMessage w a b c d) ''longitude'' = Inr Undefined" for a b c d
    by (simp add: gpsMessage_def)
  from generateGpsPoints_cases [of w g request] show ?thesis
  proof (elim disjE exE conjE)
    fix e
    assume "queue (snd (generateGpsPoints w g request)) = queue g"
      and "fst (generateGpsPoints w g request) = Response500 e"
    then show ?thesis by blast
  next
    fix a b c d
    assume q: "queue (snd (generateGpsPoints w g request)) = queue g @ [gpsMessage w a b c d]"
      and r: "fst (generateGpsPoints w g request) = Response200 (gpsMessage w a b c d)"
    have same: "\<forall>isWithinGeofence w' s.
             processGpsData isWithinGeofence w' s (gpsMessage w a b c d) =
             processGpsData (\<lambda>lon lat. isWithinGeofence Undefined Undefined) w' s (gpsMessage w a b c d)"
      using processGpsData_gpsMessage by blast
    have pin: "\<forall>isWithinGeofence w' s e.
             isWithinGeofence Undefined Undefined = Inl e \<longrightarrow>
             processGpsData isWithinGeofence w' s (gpsMessage w a b c d) = (Inl e, s)"
      using processGpsData_throws [OF gpsMessage_destructure] by blast
    show ?thesis
      using q r shape [of a b c d] gpsMessage_destructure [of w a b c d] same pin by blast
  qed
qed

theorem generated_message_has_no_coordinates_witness:
  "generateGpsPoints exampleGenWorld freshGenState (Inr ''{}'')
     = (Response200 (gpsMessage exampleGenWorld (Num 45.39574634172982) (Num (-75.74740191869692)) (Num 20)
          (Arr [Obj [(''latitude'', Num 45.01), (''longitude'', Num (-75.02))]])),
        \<lparr>serviceBusClientInstance = Some ''Endpoint=sb://bus'',
         serviceBusSenderInstance = Some ''gps'',
         queue = [gpsMessage exampleGenWorld (Num 45.39574634172982) (Num (-75.74740191869692)) (Num 20)
          (Arr [Obj [(''latitude'', Num 45.01), (''longitude'', Num (-75.02))]])]\<rparr>)
   \<and> objectKeys (gpsMessage exampleGenWorld (Num 45.39574634172982) (Num (-75.74740191869692)) (Num 20)
          (Arr [Obj [(''latitude'', Num 45.01), (''longitude'', Num (-75.02))]]))
       = [''timestamp'', ''vehicleId'', ''center'', ''radiusKm'', ''points'']
   \<and> destructure (gpsMessage exampleGenWorld (Num 45.39574634172982) (Num (-75.74740191869692)) (Num 20)
          (Arr [Obj [(''latitude'', Num 45.01), (''longitude'', Num (-75.02))]]))
       = Inr (Str ''2025-01-01T00:00:00.000Z'', Str ''0042'', Undefined, Undefined)
   \<and> strictFence Undefined Undefined = Inl (Error ''invalid coordinates'')
   \<and> processGpsData strictFence exampleWorld freshState
        (gpsMessage exampleGenWorld (Num 45.39574634172982) (Num (-75.74740191869692)) (Num 20)
          (Arr [Obj [(''latitude'', Num 45.01), (''longitude'', Num (-75.02))]]))
       = (Inl (Error ''invalid coordinates''), freshState)"
proof -
  let ?m = "gpsMessage exampleGenWorld (Num 45.39574634172982) (Num (-75.74740191869692)) (Num 20)
          (Arr [Obj [(''latitude'', Num 45.01), (''longitude'', Num (-75.02))]])"
  have run: "generateGpsPoints exampleGenWorld freshGenState (Inr ''{}'')
     = (Response200 ?m,
        \<lparr>serviceBusClientInstance = Some ''Endpoint=sb://bus'',
         serviceBusSenderInstance = Some ''gps'', queue = [?m]\<rparr>)"
    by (simp add: generateGpsPoints_def parseRequestData_def getServiceBusSender_def
        getServiceBusClient_def orElse_def exampleGenWorld_def freshGenState_def Let_def)
  have strict: "strictFence Undefined Undefined = Inl (Error ''invalid coordinates'')"
    by (simp add: strictFence_def)
  have "\<exists>m ts vId. queue (snd (generateGpsPoints exampleGenWorld freshGenState (Inr ''{}'')))
           = queue freshGenState @ [m]
       \<and> fst (generateGpsPoints exampleGenWorld freshGenState (Inr ''{}'')) = Response200 m
       \<and> objectKeys m = [''timestamp'', ''vehicleId'', ''center'', ''radiusKm'', ''points'']
       \<and> destructure m = Inr (ts, vId, Undefined, Undefined)
       \<and> (\<forall>isWithinGeofence w' s e.
             isWithinGeofence Undefined Undefined = Inl e \<longrightarrow>
             processGpsData isWithinGeofence w' s m = (Inl e, s))"
    using generated_message_has_no_coordinates [of exampleGenWorld freshGenState "Inr ''{}''"] run
    by auto
  then obtain m ts vId where m: "fst (generateGpsPoints exampleGenWorld freshGenState (Inr ''{}'')) = Response200 m"
    and k: "objectKeys m = [''timestamp'', ''vehicleId'', ''center'', ''radiusKm'', ''points'']"
    and d: "destructure m = Inr (ts, vId, Undefined, Undefined)"
    and pin: "\<forall>isWithinGeofence w' s e.
             isWithinGeofence Undefined Undefined = Inl e \<longrightarrow>
             processGpsData isWithinGeofence w' s m = (Inl e, s)"
    by blast
  have eq: "m = ?m"
    using m run by simp
  have thrown: "processGpsData strictFence exampleWorld freshState m
      = (Inl (Error ''invalid coordinates''), freshState)"
    using pin strict by blast
  show ?thesis
    using run k d strict thrown unfolding eq
    by (simp add: gpsMessage_destructure exampleGenWorld_def)
qed

section \<open>Missing store configuration\<close>

text \<open>
  Claim C7, as stated, fails for the ingestion consumer: with the connection string
  not set, its store service connects with the built-in connection string and the
  violation is stored.
\<close>

theorem missing_configuration_aborts_counterexample:
  "MONGODB_CONNECTION_STRING (exampleWorld\<lparr>MONGODB_CONNECTION_STRING := None\<rparr>) = None
   \<and> processGpsData exampleFence (exampleWorld\<lparr>MONGODB_CONNECTION_STRING := None\<rparr>) freshState
        (gpsFix ''V1'' 50 50)
      = (Inr Stored,
         \<lparr>mongoClient = Some defaultConnectionString, database = Some ''geofence'',
          emailClient = None, violations = [exampleViolation ''uuid-1'' 100]\<rparr>)"
  by (simp add: processGpsData_def destructure_def gpsFix_def exampleFence_def findVehicleUser_def
      storeViolation_def Let_def getMongoClient_service_def exampleWorld_def freshState_def
      exampleOwner_def exampleViolation_def)

text \<open>
  Claim C7, amended. In an invocation that starts without a cached store client and
  with the store connection string missing (not set, or empty): the notification
  scanner and the purge sweeper fail to initialise and the invocation aborts, throwing
  the configuration error to the runtime (the scanner before it logs any report); the
  ingestion consumer's store service does not fail for the missing configuration but
  builds its client from the built-in default connection string.
\<close>

theorem missing_store_configuration:
  assumes "MONGODB_CONNECTION_STRING w = None \<or> MONGODB_CONNECTION_STRING w = Some []"
    and "mongoClient s = None"
  shows "scanViolations w s =
           (Inl (Error ''MONGODB_CONNECTION_STRING environment variable is not configured''), None, s)
     \<and> purgeHandler w s =
           (Inl (Error ''MONGODB_CONNECTION_STRING environment variable is not configured''), s)
     \<and> getMongoClient_service w s =
           (case newMongoClientFault w defaultConnectionString of
              Some err \<Rightarrow> (Inl err, s)
            | None \<Rightarrow>
                (case connectFault w of
                   Some err \<Rightarrow> (Inl err, s\<lparr>mongoClient := Some defaultConnectionString\<rparr>)
                 | None \<Rightarrow>
                     (Inr (), s\<lparr>mongoClient := Some defaultConnectionString,
                                 database := Some ''geofence''\<rparr>)))"
proof -
  have scan: "getMongoClient_scanner w s =
      (Inl (Error ''MONGODB_CONNECTION_STRING environment variable is not configured''), s)"
    using assms by (auto simp: getMongoClient_scanner_def)
  have purge: "getMongoClient_purge w s =
      (Inl (Error ''MONGODB_CONNECTION_STRING environment variable is not configured''), s)"
    using assms by (auto simp: getMongoClient_purge_def)
  have 1: "scanViolations w s =
           (Inl (Error ''MONGODB_CONNECTION_STRING environment variable is not configured''), None, s)"
    using assms(2) by (simp add: scanViolations_def getUnsentViolations_def scan
        cleanupResources_scanner_def)
  have 2: "purgeHandler w s =
           (Inl (Error ''MONGODB_CONNECTION_STRING environment variable is not configured''), s)"
    using assms(2) by (simp add: purgeHandler_def purge cleanupResources_purge_def)
  have 3: "getMongoClient_service w s =
           (case newMongoClientFault w defaultConnectionString of
              Some err \<Rightarrow> (Inl err, s)
            | None \<Rightarrow>
                (case connectFault w of
                   Some err \<Rightarrow> (Inl err, s\<lparr>mongoClient := Some defaultConnectionString\<rparr>)
                 | None \<Rightarrow>
                     (Inr (), s\<lparr>mongoClient := Some defaultConnectionString,
                                 database := Some ''geofence''\<rparr>)))"
    using assms by (auto simp: getMongoClient_service_def Let_def split: option.splits)
  show ?thesis
    using 1 2 3 by simp
qed

theorem missing_store_configuration_witness:
  "(MONGODB_CONNECTION_STRING (exampleWorld\<lparr>MONGODB_CONNECTION_STRING := None\<rparr>) = None
      \<or> MONGODB_CONNECTION_STRING (exampleWorld\<lparr>MONGODB_CONNECTION_STRING := None\<rparr>) = Some [])
   \<and> mongoClient freshState = None
   \<and> scanViolations (exampleWorld\<lparr>MONGODB_CONNECTION_STRING := None\<rparr>) freshState =
           (Inl (Error ''MONGODB_CONNECTION_STRING environment variable is not configured''), None,
            freshState)
   \<and> purgeHandler (exampleWorld\<lparr>MONGODB_CONNECTION_STRING := None\<rparr>) freshState =
           (Inl (Error ''MONGODB_CONNECTION_STRING environment variable is not configured''), freshState)
   \<and> getMongoClient_service (exampleWorld\<lparr>MONGODB_CONNECTION_STRING := None\<rparr>) freshState =
           (Inr (), freshState\<lparr>mongoClient := Some defaultConnectionString,
                                database := Some ''geofence''\<rparr>)"
proof -
  let ?w = "exampleWorld\<lparr>MONGODB_CONNECTION_STRING := None\<rparr>"
  have m: "MONGODB_CONNECTION_STRING ?w = None \<or> MONGODB_CONNECTION_STRING ?w = Some []"
    by simp
  have c: "mongoClient freshState = None"
    by (simp add: freshState_def)
  have f: "newMongoClientFault exampleWorld defaultConnectionString = None"
    "connectFault exampleWorld = None"
    by (simp_all add: exampleWorld_def)
  show ?thesis
    using m c missing_store_configuration [OF m c] by (simp add: f)
qed

end
